theory Spec2Isabelle
  imports Main "HOL-Library.Word" "HOL-Library.Multiset"
begin

section \<open>Level identifiers\<close>

text \<open>
  Modelled from the spec: \<open>phlex/model/level_id.hpp\<close> is not among the sources; only
  its uses in \<open>product_store.cpp\<close> are (\<open>make_child\<close>, \<open>depth\<close>, \<open>level_name\<close>).
  The spec describes a level id as an ordered path \<open>[(n0, name0), (n1, name1), ...]\<close>
  rooted at the empty path, with \<open>depth()\<close>, \<open>number()\<close> (the last component's index),
  \<open>level_name()\<close> and \<open>make_child(n, name)\<close>. Level numbers are \<open>std::size_t\<close> in
  the callers, here 64-bit words. The spec gives the empty path no level name; the
  model returns the empty string there.
\<close>

type_synonym level_id = "(64 word \<times> string) list"

definition level_id_make_child :: "level_id \<Rightarrow> 64 word \<Rightarrow> string \<Rightarrow> level_id" where
  "level_id_make_child lid n name = lid @ [(n, name)]"

definition depth :: "level_id \<Rightarrow> nat" where
  "depth lid = length lid"

definition level_id_level_name :: "level_id \<Rightarrow> string" where
  "level_id_level_name lid = (case rev lid of [] \<Rightarrow> [] | (n, name) # _ \<Rightarrow> name)"


section \<open>Product containers\<close>

text \<open>
  \<open>products.cpp\<close>: \<open>products::contains\<close> asks the underlying name-keyed container
  whether it holds the name. The container is a map from product names to products;
  the product values themselves stay abstract (type parameter \<open>'p\<close>).
\<close>

type_synonym 'p products = "string \<rightharpoonup> 'p"

definition products_contains :: "'p products \<Rightarrow> string \<Rightarrow> bool" where
  "products_contains ps product_name = (ps product_name \<noteq> None)"


section \<open>Product stores\<close>

text \<open>
  \<open>product_store.cpp\<close>. A store holds a shared pointer to its (immutable) parent, its
  products, its level id, the label of its source and its stage. Stores are never
  mutated through these pointers, so a pointer is modelled by the value it points to and
  the null pointer by \<open>None\<close>. The selectors are the members \<open>parent_\<close>, \<open>products_\<close>,
  \<open>id_\<close>, \<open>source_\<close>, \<open>stage_\<close>, and at the same time the accessors \<open>parent()\<close>,
  \<open>id()\<close>, \<open>source()\<close>, which return the members unchanged.
\<close>

datatype stage = process | flush

datatype 'p product_store = Product_Store
  (parent: "'p product_store option")
  (products_of: "'p products")
  (id_of: level_id)
  (source: string)
  (stage_of: stage)

text \<open>
  The first constructor stores its five arguments. In \<open>make_flush\<close> it is called with
  four: the products then take their default, the empty container.
\<close>

definition new_product_store ::
  "'p product_store option \<Rightarrow> level_id \<Rightarrow> string \<Rightarrow> stage \<Rightarrow> 'p products \<Rightarrow> 'p product_store"
where
  "new_product_store par lid src processing_stage new_products =
     Product_Store par new_products lid src processing_stage"

text \<open>
  The second and third constructors dereference the parent to derive the child's id;
  the parent is therefore a store, not an optional one.
\<close>

definition new_child_store ::
  "'p product_store \<Rightarrow> 64 word \<Rightarrow> string \<Rightarrow> string \<Rightarrow> 'p products \<Rightarrow> 'p product_store"
where
  "new_child_store par new_level_number new_level_name src new_products =
     Product_Store (Some par) new_products
       (level_id_make_child (id_of par) new_level_number new_level_name) src process"

definition new_child_store_staged ::
  "'p product_store \<Rightarrow> 64 word \<Rightarrow> string \<Rightarrow> string \<Rightarrow> stage \<Rightarrow> 'p product_store"
where
  "new_child_store_staged par new_level_number new_level_name src processing_stage =
     Product_Store (Some par) Map.empty
       (level_id_make_child (id_of par) new_level_number new_level_name) src processing_stage"

definition level_name :: "'p product_store \<Rightarrow> string" where
  "level_name s = level_id_level_name (id_of s)"

definition is_flush :: "'p product_store \<Rightarrow> bool" where
  "is_flush s = (stage_of s = flush)"

definition contains_product :: "'p product_store \<Rightarrow> string \<Rightarrow> bool" where
  "contains_product s product_name = products_contains (products_of s) product_name"

text \<open>
  The loop of \<open>parent(level_name)\<close>: the variable \<open>store\<close> walks the parent pointers
  until it is null or names the level asked for.
\<close>

function parent_loop :: "'p product_store option \<Rightarrow> string \<Rightarrow> 'p product_store option" where
  "parent_loop None lname = None"
| "parent_loop (Some st) lname =
     (if level_name st = lname then Some st else parent_loop (parent st) lname)"
  by pat_completeness auto
termination
proof (relation "measure (\<lambda>(store, lname). size_option size store)")
  show "wf (measure (\<lambda>(store, lname). size_option size store))"
    by simp
next
  fix st :: "'p product_store" and lname :: string
  show "((parent st, lname), (Some st, lname)) \<in> measure (\<lambda>(store, lname). size_option size store)"
    by (cases st) simp
qed

definition parent_by_level_name :: "'p product_store \<Rightarrow> string \<Rightarrow> 'p product_store option" where
  "parent_by_level_name s lname = parent_loop (parent s) lname"

text \<open>The loop of \<open>store_for_product\<close>, which starts at the store itself.\<close>

function store_for_product_loop ::
  "'p product_store option \<Rightarrow> string \<Rightarrow> 'p product_store option"
where
  "store_for_product_loop None product_name = None"
| "store_for_product_loop (Some st) product_name =
     (if contains_product st product_name then Some st
      else store_for_product_loop (parent st) product_name)"
  by pat_completeness auto
termination
proof (relation "measure (\<lambda>(store, product_name). size_option size store)")
  show "wf (measure (\<lambda>(store, product_name). size_option size store))"
    by simp
next
  fix st :: "'p product_store" and product_name :: string
  show "((parent st, product_name), (Some st, product_name))
          \<in> measure (\<lambda>(store, product_name). size_option size store)"
    by (cases st) simp
qed

definition store_for_product :: "'p product_store \<Rightarrow> string \<Rightarrow> 'p product_store option" where
  "store_for_product s product_name = store_for_product_loop (Some s) product_name"

definition make_flush :: "'p product_store \<Rightarrow> 'p product_store" where
  "make_flush s = new_product_store (parent s) (id_of s) ''[inserted]'' flush Map.empty"

definition make_continuation :: "'p product_store \<Rightarrow> string \<Rightarrow> 'p products \<Rightarrow> 'p product_store" where
  "make_continuation s src new_products =
     new_product_store (parent s) (id_of s) src process new_products"

definition make_child ::
  "'p product_store \<Rightarrow> 64 word \<Rightarrow> string \<Rightarrow> string \<Rightarrow> 'p products \<Rightarrow> 'p product_store"
where
  "make_child s new_level_number new_level_name src new_products =
     new_child_store s new_level_number new_level_name src new_products"

definition make_child_staged ::
  "'p product_store \<Rightarrow> 64 word \<Rightarrow> string \<Rightarrow> string \<Rightarrow> stage \<Rightarrow> 'p product_store"
where
  "make_child_staged s new_level_number new_level_name src processing_stage =
     new_child_store_staged s new_level_number new_level_name src processing_stage"

definition more_derived :: "'p product_store \<Rightarrow> 'p product_store \<Rightarrow> 'p product_store" where
  "more_derived a b = (if depth (id_of a) > depth (id_of b) then a else b)"

text \<open>
  The chain of a store as the spec words it: the store itself, then its parent, up to
  the root; and its proper ancestors, the same chain without the store itself.
\<close>

fun self_to_root :: "'p product_store \<Rightarrow> 'p product_store list" where
  "self_to_root (Product_Store par ps lid src stg) =
     Product_Store par ps lid src stg #
       (case par of None \<Rightarrow> [] | Some p \<Rightarrow> self_to_root p)"

definition ancestors :: "'p product_store \<Rightarrow> 'p product_store list" where
  "ancestors s = (case parent s of None \<Rightarrow> [] | Some p \<Rightarrow> self_to_root p)"


section \<open>Output nodes\<close>

text \<open>
  \<open>declared_output.cpp\<close>. The body of the flow-graph node of a declared output receives
  a message, calls the user's output function on the message's store unless that store
  is a flush store, and returns a \<open>continue_msg\<close>. Of the message (\<open>message.hpp\<close> is
  not among the sources) only the member \<open>store\<close> is read. The user's function
  returns nothing; what it does is a change of the world \<open>'w\<close>, and it may throw
  (\<open>Inl\<close>), in which case the body does not return its \<open>continue_msg\<close>.
\<close>

datatype continue_msg = Continue_Msg

record 'p message =
  store :: "'p product_store"

type_synonym ('p, 'x, 'w) output_function_t = "'p product_store \<Rightarrow> 'w \<Rightarrow> ('x + unit) \<times> 'w"

definition declared_output_body ::
  "('p, 'x, 'w) output_function_t \<Rightarrow> 'p message \<Rightarrow> 'w \<Rightarrow> ('x + continue_msg) \<times> 'w"
where
  "declared_output_body f msg w =
     (if \<not> is_flush (store msg)
      then (case f (store msg) w of
              (Inl x, w') \<Rightarrow> (Inl x, w')
            | (Inr u, w') \<Rightarrow> (Inr Continue_Msg, w'))
      else (Inr Continue_Msg, w))"

text \<open>
  To observe invocations, a user function is paired with a log to which every call
  appends the store it was called on, before doing what the function does.
\<close>

definition logged ::
  "('p, 'x, 'w) output_function_t \<Rightarrow> ('p, 'x, 'p product_store list \<times> 'w) output_function_t"
where
  "logged f s lw = (case f s (snd lw) of (r, w') \<Rightarrow> (r, (fst lw @ [s], w')))"


section \<open>Test algorithms\<close>

text \<open>
  \<open>test/benchmarks/plus_one.cpp\<close> and \<open>plus_101.cpp\<close>. A C++ \<open>int\<close> is a 32-bit
  two's-complement value: a \<open>32 word\<close>, read as an integer by \<open>sint\<close>. Where the sum
  does not fit an \<open>int\<close> the C++ addition is undefined; the model's addition wraps
  there, so it returns some \<open>int\<close>, which in no case is the integer sum.
\<close>

definition plus_one :: "32 word \<Rightarrow> 32 word" where
  "plus_one i = i + 1"

definition plus_101 :: "32 word \<Rightarrow> 32 word" where
  "plus_101 i = i + 101"

text \<open>
  \<open>test/benchmarks/last_index.cpp\<close>: the producer of the product \<open>a\<close>, as a function
  of the record's number (a \<open>std::size_t\<close>), which \<open>static_cast<int>\<close> cuts to its low
  32 bits.
\<close>

definition last_index :: "64 word \<Rightarrow> 32 word" where
  "last_index number = ucast number"

text \<open>
  Modelled from the spec: the driver that makes the ten records of a scenario is not
  among the sources; the spec numbers them 0 to 9.
\<close>

definition ten_cells :: "64 word list" where
  "ten_cells = map word_of_nat [0..<10]"

definition source_values :: "32 word list" where
  "source_values = map last_index ten_cells"

text \<open>
  Modelled from the spec: the engine that runs both transforms on the product \<open>a\<close> of
  each record and hands the sink the products \<open>b\<close> and \<open>c\<close> of the same record is not
  among the sources. Per source value the sink sees the pair \<open>(b, c)\<close>.
\<close>

definition sink_pairs :: "32 word list \<Rightarrow> (32 word \<times> 32 word) list" where
  "sink_pairs as = map (\<lambda>a. (plus_one a, plus_101 a)) as"



text \<open>
  Modelled from the spec: the transform of the two-input join. \<open>test::add\<close> is declared
  in \<open>test/plugins/add.hpp\<close>, which is not among the sources; the spec says that the
  transform returns \<open>i + j\<close>.
\<close>

definition add :: "32 word \<Rightarrow> 32 word \<Rightarrow> 32 word" where
  "add i j = i + j"


text \<open>
  \<open>test/plugins/module.cpp\<close> registers another observer, \<open>verify\<close>, whose body is
  \<open>assert(actual == 0)\<close>: compiled with \<open>NDEBUG\<close> it does nothing, otherwise it
  returns when the value is 0 and aborts the process when it is not. It asserts 0
  where the spec's scenario asserts 1, so it is not the observer of that scenario.
\<close>

datatype call_outcome = Returned | Aborted

definition verify :: "bool \<Rightarrow> 32 word \<Rightarrow> call_outcome" where
  "verify ndebug actual = (if ndebug then Returned else if actual = 0 then Returned else Aborted)"






section \<open>Registration of Python algorithms\<close>

text \<open>
  \<open>plugins/python/src/modulewrap.cpp\<close>. The Python objects handed to the registration
  methods are modelled by what the code reads of them. Of an object that it takes for
  a string the code reads the result of \<open>PyUnicode_AsUTF8\<close>: the UTF-8 text, or a null
  pointer when the object is not a string or has no UTF-8 encoding.
\<close>

datatype utf8 = Utf8 string | No_Utf8

text \<open>\<open>if (cstr) ann = cstr;\<close> keeps the old text when the pointer is null.\<close>

definition text_or :: "string \<Rightarrow> utf8 \<Rightarrow> string" where
  "text_or ann cstr = (case cstr of Utf8 t \<Rightarrow> t | No_Utf8 \<Rightarrow> ann)"

text \<open>
  An annotation is either a string or another object, of which the code reads the
  attribute \<open>__name__\<close> (\<open>None\<close> when it has none) and the result of \<open>str()\<close> (\<open>None\<close>
  when \<open>str()\<close> raises and returns a null pointer). \<open>annotation_as_text\<close> hands a
  null result of \<open>str()\<close> on to \<open>PyUnicode_AsUTF8\<close> and \<open>Py_DECREF\<close>, which
  dereference it: the model's result \<open>None\<close>.
\<close>

datatype pyann = Py_Unicode utf8 | Py_Object "utf8 option" "utf8 option"

definition annotation_as_text :: "pyann \<Rightarrow> string option" where
  "annotation_as_text pyobj =
     (case pyobj of
        Py_Unicode cstr \<Rightarrow> Some (text_or [] cstr)
      | Py_Object name_attribute str \<Rightarrow>
          (case (case name_attribute of Some n \<Rightarrow> Some n | None \<Rightarrow> str) of
             None \<Rightarrow> None
           | Some cstr \<Rightarrow>
               (let ann = text_or [] cstr
                in if ann \<noteq> ''ndarray'' \<and> ann \<noteq> ''list'' then Some ann
                   else (case str of
                           None \<Rightarrow> None
                         | Some cstr' \<Rightarrow> Some (text_or ann cstr')))))"

text \<open>
  The value of an attribute \<open>__annotations__\<close>: a dictionary, in insertion order,
  from names to annotations, or some other object.
\<close>

datatype pyattr = Py_Dict "(string \<times> pyann) list" | Py_Not_A_Dict

text \<open>
  A callable: whether \<open>PyCallable_Check\<close> accepts it, its \<open>__name__\<close>, its
  \<open>__annotations__\<close>, and the \<open>__annotations__\<close> of its \<open>__call__\<close>; each attribute
  is \<open>None\<close> when reading it fails. The name is any object, read by
  \<open>PyUnicode_AsUTF8\<close>.
\<close>

record pycallable =
  callable_check :: bool
  name_attr :: "utf8 option"
  annotations_attr :: "pyattr option"
  call_annotations_attr :: "pyattr option"

text \<open>
  An item of a sequence of labels: \<open>None\<close> when \<open>PyUnicode_AsUTF8\<close> returns null for
  it, otherwise its UTF-8 text and its length in code points (\<open>PyUnicode_GetLength\<close>),
  which is smaller than the number of bytes of the text when the label is not ASCII.
\<close>

datatype pystr = Py_Str string nat

text \<open>Other argument objects: \<open>None\<close>, a sequence of items, or anything else.\<close>

datatype pyobject = Py_None | Py_Sequence "pystr option list" | Py_Other

text \<open>
  The arguments of a registration call, by keyword; an argument that was not given is
  \<open>None\<close> (the null pointer left by the argument parser). The name, when given, is any
  object, read by \<open>PyUnicode_AsUTF8\<close>.
\<close>

record py_arguments =
  arg_callable :: "pycallable option"
  arg_input_family :: "pyobject option"
  arg_output_products :: "pyobject option"
  arg_concurrency :: "pyobject option"
  arg_name :: "utf8 option"

text \<open>
  Failures. The first four are Python exceptions set before a null return: the argument
  parser's own error, a \<open>TypeError\<close> with its message, the \<open>TypeError\<close> about the
  number of inputs (with the two counts and the two joined lists of its message), and
  the \<open>AttributeError\<close> of a callable without \<open>__name__\<close>. The last two are not
  Python exceptions: a C++ \<open>std::out_of_range\<close> thrown by \<open>std::string::compare\<close>,
  and undefined behaviour that ends the process (a null pointer assigned to a
  \<open>std::string\<close> or dereferenced, an index into an empty vector).
\<close>

datatype pyerror =
    Argument_Error
  | TypeError string
  | TypeError_Input_Count nat string nat string
  | AttributeError
  | Cpp_Out_Of_Range
  | Undefined_Behaviour

definition python_exception :: "pyerror \<Rightarrow> bool" where
  "python_exception e = (e \<noteq> Cpp_Out_Of_Range \<and> e \<noteq> Undefined_Behaviour)"

definition quoted :: "string \<Rightarrow> string" where
  "quoted s = CHR 0x22 # s @ [CHR 0x22]"

fun stringify :: "string list \<Rightarrow> string" where
  "stringify [] = []"
| "stringify (x # xs) = x @ concat (map (\<lambda>y. '', '' @ y) xs)"

text \<open>
  \<open>cseq\<close> makes a vector of as many (empty) strings as the sequence has items and fills
  it in order: of each item it copies as many bytes of the UTF-8 text as the item has
  code points. At the first item without UTF-8 text it stops, leaving the rest empty.
\<close>

fun cseq_items :: "pystr option list \<Rightarrow> string list" where
  "cseq_items [] = []"
| "cseq_items (Some (Py_Str p sz) # items) = take sz p # cseq_items items"
| "cseq_items (None # items) = replicate (Suc (length items)) []"

definition cseq :: "pyobject option \<Rightarrow> string list" where
  "cseq coll = (case coll of Some (Py_Sequence items) \<Rightarrow> cseq_items items | _ \<Rightarrow> [])"

definition sequence_check :: "pyobject \<Rightarrow> bool" where
  "sequence_check obj = (case obj of Py_Sequence items \<Rightarrow> True | _ \<Rightarrow> False)"

text \<open>
  The annotations are those of the callable or, failing that, those of its
  \<open>__call__\<close>. From a non-empty dictionary the code takes the text of the entry
  \<open>return\<close> (if any) as the output type and the texts of all other entries, in order,
  as the input types. Either is \<open>None\<close> when \<open>annotation_as_text\<close> is.
\<close>

definition find_annotations :: "pycallable \<Rightarrow> pyattr option" where
  "find_annotations callable =
     (case annotations_attr callable of
        Some annot \<Rightarrow> Some annot
      | None \<Rightarrow> call_annotations_attr callable)"

definition annotated_output_types :: "pyattr option \<Rightarrow> string list option" where
  "annotated_output_types annot =
     (case annot of
        Some (Py_Dict d) \<Rightarrow>
          (if d \<noteq> []
           then (case map_of d ''return'' of
                   Some ret \<Rightarrow> map_option (\<lambda>t. [t]) (annotation_as_text ret)
                 | None \<Rightarrow> Some [])
           else Some [])
      | _ \<Rightarrow> Some [])"

definition annotated_input_types :: "pyattr option \<Rightarrow> string list option" where
  "annotated_input_types annot =
     (case annot of
        Some (Py_Dict d) \<Rightarrow>
          (if d \<noteq> []
           then those (map (\<lambda>kv. annotation_as_text (snd kv))
                         (filter (\<lambda>kv. fst kv \<noteq> ''return'') d))
           else Some [])
      | _ \<Rightarrow> Some [])"

text \<open>\<open>None\<close> as the only output type is Python's "void" and is dropped.\<close>

definition ignore_none :: "string list \<Rightarrow> string list" where
  "ignore_none otypes = (if length otypes = 1 \<and> otypes ! 0 = ''None'' then [] else otypes)"

record parsed_args =
  functor_name :: string
  input_labels :: "string list"
  input_types :: "string list"
  output_labels :: "string list"
  output_types :: "string list"

text \<open>
  The name of the functor is the argument \<open>name\<close> or, when that is not given, the
  \<open>__name__\<close> of the callable.
\<close>

definition name_object :: "py_arguments \<Rightarrow> pycallable \<Rightarrow> utf8 option" where
  "name_object args callable =
     (case arg_name args of Some pyname \<Rightarrow> Some pyname | None \<Rightarrow> name_attr callable)"

text \<open>
  \<open>parse_args\<close>, check by check in the order of the source. The argument parser
  (format \<open>OO|OOO\<close>) fails when the callable or the input is missing. The result of
  \<open>PyUnicode_AsUTF8\<close> on the name is assigned to the \<open>std::string\<close> as it is: a null
  pointer there is undefined behaviour. The callable that is returned on success (the
  object itself or its \<open>phlex_callable\<close>) is only called when the graph runs and is
  left out of the result.
\<close>

definition parse_args :: "py_arguments \<Rightarrow> pyerror + parsed_args" where
  "parse_args args =
     (if arg_callable args = None \<or> arg_input_family args = None then Inl Argument_Error
      else if arg_concurrency args \<noteq> None \<and> arg_concurrency args \<noteq> Some Py_None
        then Inl (TypeError ''only serial concurrency is supported'')
      else
       (case arg_callable args of
          None \<Rightarrow> Inl (TypeError ''provided algorithm is not callable'')
        | Some callable \<Rightarrow>
           (if \<not> callable_check callable
            then Inl (TypeError ''provided algorithm is not callable'')
            else
             (case name_object args callable of
                None \<Rightarrow> Inl AttributeError
              | Some No_Utf8 \<Rightarrow> Inl Undefined_Behaviour
              | Some (Utf8 fname) \<Rightarrow>
                 (case arg_input_family args of
                    None \<Rightarrow> Inl (TypeError ''an input is required'')
                  | Some input \<Rightarrow>
                     (if \<not> sequence_check input \<or>
                         (case arg_output_products args of
                            Some output \<Rightarrow> \<not> sequence_check output
                          | None \<Rightarrow> False)
                      then Inl (TypeError ''input and output need to be sequences'')
                      else
                        let ilabels = cseq (Some input);
                            olabels = cseq (arg_output_products args)
                        in if length olabels > 1
                           then Inl (TypeError ''only a single output supported'')
                           else
                            (case annotated_output_types (find_annotations callable) of
                               None \<Rightarrow> Inl Undefined_Behaviour
                             | Some otypes \<Rightarrow>
                                (case annotated_input_types (find_annotations callable) of
                                   None \<Rightarrow> Inl Undefined_Behaviour
                                 | Some itypes \<Rightarrow>
                                    (if length itypes \<noteq> length ilabels
                                     then Inl (TypeError_Input_Count
                                                 (length ilabels) (stringify ilabels)
                                                 (length itypes) (stringify itypes))
                                     else Inr \<lparr>functor_name = fname,
                                               input_labels = ilabels,
                                               input_types = itypes,
                                               output_labels = olabels,
                                               output_types = ignore_none otypes\<rparr>)))))))))"

text \<open>
  Searching in strings: \<open>s.rfind(pat)\<close> is the last position at which \<open>pat\<close> occurs in
  \<open>s\<close>, and \<open>s.find(pat) != npos\<close> says that it occurs at all.
\<close>

definition occurs_at :: "string \<Rightarrow> string \<Rightarrow> nat \<Rightarrow> bool" where
  "occurs_at pat s i = (i + length pat \<le> length s \<and> take (length pat) (drop i s) = pat)"

definition rfind :: "string \<Rightarrow> string \<Rightarrow> nat option" where
  "rfind s pat =
     (case filter (occurs_at pat s) (rev [0..<Suc (length s)]) of
        [] \<Rightarrow> None
      | i # _ \<Rightarrow> Some i)"

definition found :: "string \<Rightarrow> string \<Rightarrow> bool" where
  "found s pat = (filter (occurs_at pat s) [0..<Suc (length s)] \<noteq> [])"

definition scalar_types :: "string list" where
  "scalar_types =
     [''bool'', ''int'', ''unsigned int'', ''long'', ''unsigned long'', ''float'', ''double'']"

definition list_types :: "string list" where
  "list_types = [''list[int]'', ''list[float]'', ''list[double]'', ''list['double']'']"

text \<open>
  One step of \<open>insert_input_converters\<close>: the converter for an input type is inserted,
  or the type is refused. The registrations themselves go to the Phlex module, whose
  code is not among the sources; the model keeps the outcome only.
\<close>

definition input_converter :: "string \<Rightarrow> pyerror option" where
  "input_converter inp_type =
     (if inp_type \<in> set scalar_types then None
      else if take 13 inp_type = ''numpy.ndarray'' then
        (case rfind inp_type ''numpy.dtype'' of
           None \<Rightarrow>
             Some (TypeError (''could not determine dtype of input type '' @ quoted inp_type))
         | Some pos \<Rightarrow>
             let suffix = drop pos inp_type
             in if found suffix ''uint32]]'' \<or> found suffix ''int32]]'' \<or>
                   found suffix ''uint64]]'' \<or> found suffix ''int64]]'' \<or>
                   found suffix ''float32]]'' \<or> found suffix ''float64]]''
                then None
                else Some (TypeError (''unsupported array input type '' @ quoted inp_type)))
      else if inp_type \<in> set list_types then None
      else Some (TypeError (''unsupported input type '' @ quoted inp_type)))"

fun insert_input_converters :: "string list \<Rightarrow> string list \<Rightarrow> pyerror option" where
  "insert_input_converters [] types = None"
| "insert_input_converters (inp # labels) [] = Some Undefined_Behaviour"
| "insert_input_converters (inp # labels) (inp_type # types) =
     (case input_converter inp_type of
        Some e \<Rightarrow> Some e
      | None \<Rightarrow> insert_input_converters labels types)"

text \<open>
  The output converter of \<open>md_transform\<close>. For an array type the code skips 18
  characters from the last \<open>numpy.dtype\<close> and compares the rest of the string;
  \<open>std::string::compare\<close> throws when that position lies beyond the end.
\<close>

definition array_suffixes :: "string list" where
  "array_suffixes =
     [''int32]]'', ''uint32]]'', ''int64]]'', ''uint64]]'', ''float32]]'', ''float64]]'']"

definition output_converter :: "string \<Rightarrow> pyerror option" where
  "output_converter output_type =
     (if output_type \<in> set scalar_types then None
      else if take 13 output_type = ''numpy.ndarray'' then
        (case rfind output_type ''numpy.dtype'' of
           None \<Rightarrow>
             Some (TypeError (''could not determine dtype of input type '' @ quoted output_type))
         | Some pos \<Rightarrow>
             if pos + 18 > length output_type then Some Cpp_Out_Of_Range
             else if drop (pos + 18) output_type \<in> set array_suffixes then None
             else Some (TypeError (''unsupported array output type '' @ quoted output_type)))
      else if output_type \<in> set list_types then None
      else Some (TypeError (''unsupported output type '' @ quoted output_type)))"

definition supported_number_of_inputs :: "string list \<Rightarrow> bool" where
  "supported_number_of_inputs labels =
     (length labels = 1 \<or> length labels = 2 \<or> length labels = 3)"

definition md_transform :: "py_arguments \<Rightarrow> pyerror + unit" where
  "md_transform args =
     (case parse_args args of
        Inl e \<Rightarrow> Inl e
      | Inr p \<Rightarrow>
          (if output_types p = [] then Inl (TypeError ''a transform should have an output type'')
           else (case output_labels p of
                   [] \<Rightarrow> Inl Undefined_Behaviour
                 | output # _ \<Rightarrow>
                     (case insert_input_converters (input_labels p) (input_types p) of
                        Some e \<Rightarrow> Inl e
                      | None \<Rightarrow>
                          (if \<not> supported_number_of_inputs (input_labels p)
                           then Inl (TypeError ''unsupported number of inputs'')
                           else (case output_converter (output_types p ! 0) of
                                   Some e \<Rightarrow> Inl e
                                 | None \<Rightarrow> Inr ()))))))"

definition md_observe :: "py_arguments \<Rightarrow> pyerror + unit" where
  "md_observe args =
     (case parse_args args of
        Inl e \<Rightarrow> Inl e
      | Inr p \<Rightarrow>
          (if output_types p \<noteq> []
           then Inl (TypeError ''an observer should not have an output type'')
           else (case insert_input_converters (input_labels p) (input_types p) of
                   Some e \<Rightarrow> Inl e
                 | None \<Rightarrow>
                     (if \<not> supported_number_of_inputs (input_labels p)
                      then Inl (TypeError ''unsupported number of inputs'')
                      else Inr ()))))"


section \<open>Example inputs\<close>

text \<open>
  A small record tree (job, run 2, event 5) with products at each level, two more stores
  at the depth of the run, and a few registration calls. The theorems below are
  evaluated on them.
\<close>

definition job_store :: "nat product_store" where
  "job_store = Product_Store None (map_of [(''geometry'', 7)]) [] ''Source'' process"

definition run_store :: "nat product_store" where
  "run_store = make_child job_store 2 ''run'' ''Source'' (map_of [(''calib'', 1)])"

definition event_store :: "nat product_store" where
  "event_store = make_child run_store 5 ''event'' ''Source'' (map_of [(''a'', 5), (''calib'', 9)])"

definition other_run_store :: "nat product_store" where
  "other_run_store = make_child job_store 3 ''run'' ''Source'' (map_of [])"

definition flushed_run_store :: "nat product_store" where
  "flushed_run_store = make_flush run_store"

definition counting_output :: "(nat, unit, nat) output_function_t" where
  "counting_output s w = (Inr (), Suc w)"

definition py_int :: pyann where
  "py_int = Py_Object (Some (Utf8 ''int'')) (Some (Utf8 ''<class 'int'>''))"

definition typed_callable :: "(string \<times> pyann) list \<Rightarrow> pycallable" where
  "typed_callable d =
     \<lparr>callable_check = True, name_attr = Some (Utf8 ''algorithm''),
      annotations_attr = Some (Py_Dict d), call_annotations_attr = None\<rparr>"

definition label :: "string \<Rightarrow> pystr option" where
  "label s = Some (Py_Str s (length s))"

definition registration ::
  "pycallable \<Rightarrow> string list \<Rightarrow> string list option \<Rightarrow> utf8 option \<Rightarrow> py_arguments"
where
  "registration callable ins outs pyname =
     \<lparr>arg_callable = Some callable,
      arg_input_family = Some (Py_Sequence (map label ins)),
      arg_output_products = map_option (\<lambda>os. Py_Sequence (map label os)) outs,
      arg_concurrency = None,
      arg_name = pyname\<rparr>"


section \<open>Properties of the loops and of argument parsing\<close>

lemma self_to_root_unfold:
  "self_to_root s = s # (case parent s of None \<Rightarrow> [] | Some p \<Rightarrow> self_to_root p)"
  by (cases s) simp

lemma store_for_product_loop_find:
  "store_for_product_loop so n =
     (case so of
        None \<Rightarrow> None
      | Some s \<Rightarrow> find (\<lambda>t. contains_product t n) (self_to_root s))"
proof (induction so n rule: store_for_product_loop.induct)
  case (1 product_name)
  show ?case by simp
next
  case (2 st product_name)
  show ?case
  proof (cases "contains_product st product_name")
    case True
    then show ?thesis
      by (subst self_to_root_unfold) simp
  next
    case False
    with 2 show ?thesis
      by (subst self_to_root_unfold) (simp split: option.splits)
  qed
qed

lemma parent_loop_find:
  "parent_loop so l =
     (case so of
        None \<Rightarrow> None
      | Some s \<Rightarrow> find (\<lambda>t. level_name t = l) (self_to_root s))"
proof (induction so l rule: parent_loop.induct)
  case (1 lname)
  show ?case by simp
next
  case (2 st lname)
  show ?case
  proof (cases "level_name st = lname")
    case True
    then show ?thesis
      by (subst self_to_root_unfold) simp
  next
    case False
    with 2 show ?thesis
      by (subst self_to_root_unfold) (simp split: option.splits)
  qed
qed

text \<open>What the lookup returns is on the chain and holds the product.\<close>

lemma store_for_product_loop_Some:
  assumes "store_for_product_loop (Some s) n = Some t"
  shows "t \<in> set (self_to_root s) \<and> contains_product t n"
proof -
  from assms have "find (\<lambda>u. contains_product u n) (self_to_root s) = Some t"
    by (simp add: store_for_product_loop_find)
  then show ?thesis
    by (auto simp add: find_Some_iff)
qed

lemma store_for_product_loop_None:
  "store_for_product_loop (Some s) n = None \<longleftrightarrow>
     (\<forall>t \<in> set (self_to_root s). \<not> contains_product t n)"
  by (auto simp add: store_for_product_loop_find find_None_iff)

text \<open>
  \<open>parse_args\<close> ends in undefined behaviour only through a name without UTF-8 text
  or an annotation whose \<open>str()\<close> raises; every other error is a Python exception.
\<close>

lemma parse_args_undefined:
  assumes "parse_args args = Inl Undefined_Behaviour"
  shows "\<exists>c. arg_callable args = Some c \<and>
           (name_object args c = Some No_Utf8 \<or>
            annotated_output_types (find_annotations c) = None \<or>
            annotated_input_types (find_annotations c) = None)"
  using assms
  by (auto simp add: parse_args_def Let_def split: if_splits option.splits utf8.splits)

lemma parse_args_error_python:
  assumes "parse_args args = Inl e" and "e \<noteq> Undefined_Behaviour"
  shows "python_exception e"
  using assms
  by (auto simp add: parse_args_def python_exception_def Let_def
      split: if_splits option.splits utf8.splits)

text \<open>
  What \<open>parse_args\<close> hands back on success: the types read from the annotations of
  the callable, the labels read from the input, and as many types as labels.
\<close>

lemma parse_args_types:
  assumes "parse_args args = Inr p"
  shows "\<exists>c ots. arg_callable args = Some c \<and>
           annotated_output_types (find_annotations c) = Some ots \<and>
           output_types p = ignore_none ots \<and>
           annotated_input_types (find_annotations c) = Some (input_types p) \<and>
           input_labels p = cseq (arg_input_family args) \<and>
           length (input_types p) = length (input_labels p)"
  using assms
  by (auto simp add: parse_args_def Let_def split: if_splits option.splits utf8.splits)

lemma md_observe_output_type:
  "parse_args args = Inr p \<Longrightarrow> output_types p \<noteq> [] \<Longrightarrow>
     md_observe args = Inl (TypeError ''an observer should not have an output type'')"
  by (simp add: md_observe_def)

lemma md_transform_no_output_type:
  "parse_args args = Inr p \<Longrightarrow> output_types p = [] \<Longrightarrow>
     md_transform args = Inl (TypeError ''a transform should have an output type'')"
  by (simp add: md_transform_def)

text \<open>
  The contract of typed callables, for registrations whose name has UTF-8 text and whose
  annotations have a \<open>str()\<close>: an observer with a return type other than \<open>None\<close>, a
  transform without one, and any registration whose annotated input types are not as
  many as its labels, fail with a Python exception.
\<close>

lemma registration_contract_with_text:
  assumes c: "arg_callable args = Some c"
    and name: "name_object args c \<noteq> Some No_Utf8"
    and ots: "annotated_output_types (find_annotations c) = Some ots"
    and its: "annotated_input_types (find_annotations c) = Some its"
  shows
    "(ignore_none ots \<noteq> [] \<longrightarrow>
        (\<exists>e. md_observe args = Inl e \<and> python_exception e)) \<and>
     (ignore_none ots = [] \<longrightarrow>
        (\<exists>e. md_transform args = Inl e \<and> python_exception e)) \<and>
     (length its \<noteq> length (cseq (arg_input_family args)) \<longrightarrow>
        (\<exists>e. md_observe args = Inl e \<and> python_exception e) \<and>
        (\<exists>e. md_transform args = Inl e \<and> python_exception e))"
proof (cases "parse_args args")
  case (Inl e)
  have "e \<noteq> Undefined_Behaviour"
  proof
    assume "e = Undefined_Behaviour"
    with Inl parse_args_undefined [of args] c name ots its show False
      by auto
  qed
  with Inl have "python_exception e"
    by (rule parse_args_error_python)
  with Inl show ?thesis
    by (simp add: md_observe_def md_transform_def)
next
  case (Inr p)
  from parse_args_types [OF Inr] c ots its
  have ot: "output_types p = ignore_none ots"
    and len: "length its = length (cseq (arg_input_family args))"
    by auto
  have obs: "output_types p \<noteq> [] \<Longrightarrow> \<exists>e. md_observe args = Inl e \<and> python_exception e"
    using md_observe_output_type [OF Inr] by (simp add: python_exception_def)
  have tr: "output_types p = [] \<Longrightarrow> \<exists>e. md_transform args = Inl e \<and> python_exception e"
    using md_transform_no_output_type [OF Inr] by (simp add: python_exception_def)
  from ot len obs tr show ?thesis
    by simp
qed

text \<open>
  Three such registrations: an observer of \<open>a\<close> annotated \<open>(x: int) -> int\<close>, a
  transform of \<open>a\<close> to \<open>b\<close> annotated \<open>(x: int)\<close>, and a transform of \<open>a\<close> and \<open>c\<close>
  to \<open>b\<close> annotated \<open>(x: int) -> int\<close>, each under the name of its callable.
\<close>

lemma registration_contract_examples:
  "md_observe (registration (typed_callable [(''x'', py_int), (''return'', py_int)])
      [''a''] None None)
     = Inl (TypeError ''an observer should not have an output type'') \<and>
   md_transform (registration (typed_callable [(''x'', py_int)]) [''a''] (Some [''b'']) None)
     = Inl (TypeError ''a transform should have an output type'') \<and>
   md_transform (registration (typed_callable [(''x'', py_int), (''return'', py_int)])
      [''a'', ''c''] (Some [''b'']) None)
     = Inl (TypeError_Input_Count 2 ''a, c'' 1 ''int'')"
  by (simp add: registration_def typed_callable_def py_int_def label_def md_observe_def
      md_transform_def parse_args_def name_object_def find_annotations_def
      annotated_output_types_def annotated_input_types_def annotation_as_text_def
      text_or_def ignore_none_def cseq_def sequence_check_def)

text \<open>
  A label that is not ASCII is cut: of the five bytes of a four-letter label with one
  two-byte letter, \<open>cseq\<close> keeps four.
\<close>

lemma cseq_cuts_non_ascii_label:
  "cseq (Some (Py_Sequence [Some (Py_Str [CHR ''n'', CHR 0xC3, CHR 0xA9, CHR ''e'', CHR ''s''] 4)]))
     = [[CHR ''n'', CHR 0xC3, CHR 0xA9, CHR ''e'']]"
  by (simp add: cseq_def)

text \<open>
  The observer \<open>verify\<close> of \<open>test/plugins/module.cpp\<close> aborts exactly when assertions
  are compiled in and the value is not 0.
\<close>

lemma verify_aborts_iff:
  "verify ndebug actual = Aborted \<longleftrightarrow> \<not> ndebug \<and> actual \<noteq> 0"
  by (simp add: verify_def)

text \<open>
  Read as integers, the sum of two \<open>int\<close>s is the integer sum as long as that is an
  \<open>int\<close>, and no \<open>int\<close> is the integer \<open>2 ^ 31\<close>.
\<close>

lemma sint_add_no_overflow:
  fixes a b :: "32 word"
  assumes "0 \<le> sint b" and "sint a + sint b < 2 ^ 31"
  shows "sint (a + b) = sint a + sint b"
proof -
  have lo: "- (2 ^ 31) \<le> sint a"
    using sint_ge [of a] by simp
  have "sint (a + b) = signed_take_bit 31 (sint a + sint b)"
    by (simp add: sint_word_add)
  also have "\<dots> = sint a + sint b"
    by (rule signed_take_bit_int_eq_self) (use lo assms in simp_all)
  finally show ?thesis .
qed

lemma plus_one_sint: "sint a < 2147483647 \<Longrightarrow> sint (plus_one a) = sint a + 1"
  using sint_add_no_overflow [of 1 a] by (simp add: plus_one_def)

lemma plus_101_sint: "sint a < 2147483547 \<Longrightarrow> sint (plus_101 a) = sint a + 101"
  using sint_add_no_overflow [of 101 a] by (simp add: plus_101_def)

lemma no_int_is_2_to_31:
  fixes r :: "32 word"
  shows "sint r \<noteq> 2147483648"
  using sint_lt [of r] by simp


section \<open>The claims\<close>

subsection \<open>C1: the two-input join\<close>



subsection \<open>C2: continuations\<close>

text \<open>
  Claim C2, as amended. For every product store \<open>s\<close>, source label \<open>src\<close> and product
  set \<open>p\<close>, \<open>make_continuation s src p\<close> is a store with the id of \<open>s\<close>, the parent of
  \<open>s\<close>, the products \<open>p\<close> and the stage \<open>process\<close>; its stage is that of \<open>s\<close> exactly
  when \<open>s\<close> is not a flush store.
\<close>

theorem make_continuation_frame:
  "id_of (make_continuation s src p) = id_of s \<and>
   parent (make_continuation s src p) = parent s \<and>
   products_of (make_continuation s src p) = p \<and>
   stage_of (make_continuation s src p) = process \<and>
   (stage_of (make_continuation s src p) = stage_of s \<longleftrightarrow> \<not> is_flush s)"
  by (cases "stage_of s")
    (simp_all add: make_continuation_def new_product_store_def is_flush_def)

theorem make_continuation_frame_witness:
  "\<not> is_flush run_store \<and>
   stage_of (make_continuation run_store ''plus_one'' (map_of [(''b'', 3)])) = stage_of run_store \<and>
   id_of (make_continuation run_store ''plus_one'' (map_of [(''b'', 3)])) = [(2, ''run'')]"
  using make_continuation_frame [of run_store "''plus_one''" "map_of [(''b'', 3)]"]
  by (simp add: run_store_def job_store_def make_child_def new_child_store_def
      level_id_make_child_def is_flush_def)

text \<open>
  The claim as stated (the stage of the continuation equals the stage of \<open>s\<close>) fails
  for a flush store: its continuation is a \<open>process\<close> store.
\<close>

theorem make_continuation_of_flush_store:
  "stage_of flushed_run_store = flush \<and>
   stage_of (make_continuation flushed_run_store ''plus_one'' (map_of [(''b'', 3)])) = process \<and>
   stage_of (make_continuation flushed_run_store ''plus_one'' (map_of [(''b'', 3)]))
     \<noteq> stage_of flushed_run_store"
  by (simp add: flushed_run_store_def make_flush_def make_continuation_def
      new_product_store_def)


subsection \<open>C3: flush markers\<close>

text \<open>
  Claim C3. For every product store \<open>s\<close>, the store \<open>make_flush s\<close> is a flush store,
  has the id of \<open>s\<close> and the parent of \<open>s\<close>, and contains no product, whatever the
  name asked for.
\<close>

theorem make_flush_marker:
  "is_flush (make_flush s) \<and>
   id_of (make_flush s) = id_of s \<and>
   parent (make_flush s) = parent s \<and>
   (\<forall>n. \<not> contains_product (make_flush s) n)"
  by (simp add: make_flush_def new_product_store_def is_flush_def contains_product_def
      products_contains_def)


subsection \<open>C4: output nodes skip flush messages\<close>

text \<open>
  Claim C4. For every message delivered to an output node, the user's output function
  is invoked (once, on the message's store) if and only if that store is not a flush
  store: the log of invocations grows by the store, or not at all. On a flush message
  the node completes with its \<open>continue_msg\<close> and leaves the world as it was.
\<close>

theorem output_invoked_iff_not_flush:
  "fst (snd (declared_output_body (logged f) msg (log, w))) =
     (if is_flush (store msg) then log else log @ [store msg]) \<and>
   (is_flush (store msg) \<longrightarrow> declared_output_body f msg w = (Inr Continue_Msg, w))"
  by (auto simp add: declared_output_body_def logged_def split: prod.splits sum.splits)

theorem output_invoked_iff_not_flush_witness:
  "is_flush (store \<lparr>store = flushed_run_store\<rparr>) \<and>
   declared_output_body counting_output \<lparr>store = flushed_run_store\<rparr> 0 = (Inr Continue_Msg, 0) \<and>
   fst (snd (declared_output_body (logged counting_output) \<lparr>store = flushed_run_store\<rparr> ([], 0))) = [] \<and>
   \<not> is_flush (store \<lparr>store = run_store\<rparr>) \<and>
   fst (snd (declared_output_body (logged counting_output) \<lparr>store = run_store\<rparr> ([], 0)))
     = [run_store]"
  using output_invoked_iff_not_flush
          [of counting_output "\<lparr>store = flushed_run_store\<rparr>" "[]" 0]
        output_invoked_iff_not_flush
          [of counting_output "\<lparr>store = run_store\<rparr>" "[]" 0]
  by (simp add: flushed_run_store_def run_store_def make_flush_def make_child_def
      new_product_store_def new_child_store_def is_flush_def)


subsection \<open>C5: the store that holds a product\<close>

text \<open>
  Claim C5. For every product store \<open>s\<close> and product name \<open>n\<close>, \<open>store_for_product s n\<close>
  is the nearest store on the chain from \<open>s\<close> itself up to the root whose own
  products contain \<open>n\<close>, that is the first such store of the chain, and it is null
  (\<open>None\<close>) when no store of the chain contains \<open>n\<close>.
\<close>

theorem store_for_product_nearest:
  "store_for_product s n = find (\<lambda>t. contains_product t n) (self_to_root s)"
  by (simp add: store_for_product_def store_for_product_loop_find)

theorem store_for_product_nearest_witness:
  "self_to_root event_store = [event_store, run_store, job_store] \<and>
   store_for_product event_store ''calib'' = Some event_store \<and>
   store_for_product run_store ''calib'' = Some run_store \<and>
   store_for_product event_store ''geometry'' = Some job_store \<and>
   store_for_product event_store ''missing'' = None"
  using store_for_product_nearest [of event_store "''calib''"]
        store_for_product_nearest [of run_store "''calib''"]
        store_for_product_nearest [of event_store "''geometry''"]
        store_for_product_nearest [of event_store "''missing''"]
  by (simp add: event_store_def run_store_def job_store_def make_child_def
      new_child_store_def contains_product_def products_contains_def)


subsection \<open>C6: the ancestor of a given level\<close>

text \<open>
  Claim C6. For every product store \<open>s\<close> and level name \<open>l\<close>,
  \<open>parent_by_level_name s l\<close> (the source's \<open>parent(level_name)\<close>) is the nearest proper
  ancestor of \<open>s\<close>, starting at the parent of \<open>s\<close> and excluding \<open>s\<close> itself, whose
  level name is \<open>l\<close>, and it is null (\<open>None\<close>) when no ancestor has that level name.
\<close>

theorem parent_by_level_name_nearest:
  "parent_by_level_name s l = find (\<lambda>t. level_name t = l) (ancestors s)"
  by (simp add: parent_by_level_name_def parent_loop_find ancestors_def split: option.splits)

theorem parent_by_level_name_nearest_witness:
  "ancestors event_store = [run_store, job_store] \<and>
   level_name event_store = ''event'' \<and>
   parent_by_level_name event_store ''run'' = Some run_store \<and>
   parent_by_level_name event_store ''event'' = None \<and>
   parent_by_level_name job_store ''run'' = None"
  using parent_by_level_name_nearest [of event_store "''run''"]
        parent_by_level_name_nearest [of event_store "''event''"]
        parent_by_level_name_nearest [of job_store "''run''"]
  by (simp add: event_store_def run_store_def job_store_def make_child_def
      new_child_store_def ancestors_def level_name_def level_id_level_name_def
      level_id_make_child_def)


subsection \<open>C7: child stores\<close>

text \<open>
  Claim C7. For every product store \<open>s\<close>, number \<open>n\<close>, level name \<open>l\<close>, source label
  and product set, the child \<open>c = make_child s n l src ps\<close> has the id
  \<open>make_child n l\<close> of the id of \<open>s\<close>, hence a depth one more than that of \<open>s\<close>; its
  parent is \<open>s\<close> and its stage is \<open>process\<close>.
\<close>

theorem make_child_id_parent_stage:
  "id_of (make_child s n l src ps) = level_id_make_child (id_of s) n l \<and>
   depth (id_of (make_child s n l src ps)) = depth (id_of s) + 1 \<and>
   parent (make_child s n l src ps) = Some s \<and>
   stage_of (make_child s n l src ps) = process"
  by (simp add: make_child_def new_child_store_def level_id_make_child_def depth_def)


subsection \<open>C8: plus one and plus 101\<close>

text \<open>
  Claim C8, as amended. For every \<open>int\<close> input \<open>a\<close> below the largest \<open>int\<close>,
  \<open>2147483647\<close>, the transform \<open>plus_one\<close> returns the integer \<open>a + 1\<close>, and for every
  \<open>a\<close> of at most \<open>2147483546\<close> the transform \<open>plus_101\<close> returns the integer
  \<open>a + 101\<close>; so for the source values 0 to 9, the indices of the ten records, the
  sink observes the multiset of pairs \<open>(1, 101), (2, 102), ..., (10, 110)\<close>.
\<close>

theorem plus_one_plus_101_in_range:
  "(sint a < 2147483647 \<longrightarrow> sint (plus_one a) = sint a + 1) \<and>
   (sint a < 2147483547 \<longrightarrow> sint (plus_101 a) = sint a + 101) \<and>
   mset (map (\<lambda>bc. (sint (fst bc), sint (snd bc))) (sink_pairs source_values)) =
     {#(1, 101), (2, 102), (3, 103), (4, 104), (5, 105),
       (6, 106), (7, 107), (8, 108), (9, 109), (10, 110)#}"
proof -
  have "mset (map (\<lambda>bc. (sint (fst bc), sint (snd bc))) (sink_pairs source_values)) =
     {#(1, 101), (2, 102), (3, 103), (4, 104), (5, 105),
       (6, 106), (7, 107), (8, 108), (9, 109), (10, 110)#}"
    by (simp add: plus_one_def plus_101_def sink_pairs_def source_values_def
        last_index_def ten_cells_def upt_rec)
  then show ?thesis
    by (simp add: plus_one_sint plus_101_sint)
qed

theorem plus_one_plus_101_in_range_witness:
  "sint (9 :: 32 word) < 2147483647 \<and> sint (plus_one 9) = 10 \<and>
   sint (9 :: 32 word) < 2147483547 \<and> sint (plus_101 9) = 110"
  using plus_one_plus_101_in_range [of 9] by simp

text \<open>
  The claim as stated (for every \<open>int\<close> input) fails at the largest \<open>int\<close>: the
  integer \<open>a + 1\<close> is then \<open>2147483648\<close>, which no \<open>int\<close> is; the wrapping addition
  returns the smallest \<open>int\<close>. The same holds of \<open>plus_101\<close>.
\<close>

theorem plus_one_overflows_at_int_max:
  "sint (2147483647 :: 32 word) = 2147483647 \<and>
   sint (plus_one 2147483647) = - 2147483648 \<and>
   sint (plus_one 2147483647) \<noteq> sint (2147483647 :: 32 word) + 1 \<and>
   sint (plus_101 2147483647) \<noteq> sint (2147483647 :: 32 word) + 101"
  by (simp add: plus_one_def plus_101_def)


subsection \<open>C9: the typed-callable contract of Python registrations\<close>

text \<open>
  Claim C9 says that registering an observer whose annotations yield a return type
  other than \<open>None\<close>, registering a transform whose annotations yield no return type,
  and any registration whose annotated input types are not as many as its input
  labels, each fail with an error. The code misses this for a name that
  \<open>PyUnicode_AsUTF8\<close> cannot read (a number, say): the three registrations of
  \<open>registration_contract_examples\<close>, given such a name, end in undefined behaviour
  before any check of the contract, which is no Python exception.
\<close>

theorem registration_crashes_on_name_without_text:
  "md_observe (registration (typed_callable [(''x'', py_int), (''return'', py_int)])
      [''a''] None (Some No_Utf8))
     = Inl Undefined_Behaviour \<and>
   md_transform (registration (typed_callable [(''x'', py_int)])
      [''a''] (Some [''b'']) (Some No_Utf8))
     = Inl Undefined_Behaviour \<and>
   md_transform (registration (typed_callable [(''x'', py_int), (''return'', py_int)])
      [''a'', ''c''] (Some [''b'']) (Some No_Utf8))
     = Inl Undefined_Behaviour \<and>
   \<not> python_exception Undefined_Behaviour"
  by (simp add: registration_def typed_callable_def md_observe_def md_transform_def
      parse_args_def name_object_def python_exception_def)


subsection \<open>C10: the more derived of two stores\<close>

text \<open>
  Claim C10. For every pair of product stores \<open>a\<close> and \<open>b\<close>, \<open>more_derived a b\<close> is
  \<open>a\<close> when the depth of the id of \<open>a\<close> is strictly greater than that of \<open>b\<close>, and
  \<open>b\<close> otherwise; in particular it is the second argument \<open>b\<close> when the depths are
  equal. For two different stores it is \<open>a\<close> exactly when \<open>a\<close> is strictly deeper.
\<close>

theorem more_derived_deeper:
  "(depth (id_of a) > depth (id_of b) \<longrightarrow> more_derived a b = a) \<and>
   (\<not> depth (id_of a) > depth (id_of b) \<longrightarrow> more_derived a b = b) \<and>
   (depth (id_of a) = depth (id_of b) \<longrightarrow> more_derived a b = b) \<and>
   (a \<noteq> b \<longrightarrow> (more_derived a b = a \<longleftrightarrow> depth (id_of a) > depth (id_of b)))"
  by (auto simp add: more_derived_def)

theorem more_derived_deeper_witness:
  "depth (id_of event_store) > depth (id_of run_store) \<and>
   more_derived event_store run_store = event_store \<and>
   more_derived run_store event_store = event_store \<and>
   depth (id_of run_store) = depth (id_of other_run_store) \<and>
   run_store \<noteq> other_run_store \<and>
   more_derived run_store other_run_store = other_run_store"
  using more_derived_deeper [where a = event_store and b = run_store]
        more_derived_deeper [where a = run_store and b = event_store]
        more_derived_deeper [where a = run_store and b = other_run_store]
  by (simp add: event_store_def run_store_def other_run_store_def job_store_def make_child_def
      new_child_store_def level_id_make_child_def depth_def)

end
